theory Spec2Isabelle
  imports Main
begin

section \<open>Documents of the two collections\<close>

text \<open>
  The service keeps two document collections, one of games and one of drawings, and
  answers HTTP requests by reading and writing them. A collection is modelled as the list
  of its documents in insertion order, so that \<open>findOne\<close> is the first match and
  \<open>find\<close> keeps the stored order. JavaScript numbers that the handlers only copy
  are integers here.
\<close>

record DrawingPoint =
  offsetDx :: int
  offsetDy :: int
  pointType :: int
  pressure :: int

text \<open>
  \<open>drawingSchema\<close> (models/Drawing.js): the paths of a drawing. The two with a
  default, \<open>created_at\<close> and \<open>is_completed\<close>, may be absent from a request body and
  are always present in a stored document: the record is polymorphic in their types.
  The schema declares no \<open>game_code\<close>.
\<close>

record ('t, 'c) drawing_fields =
  d_created_at :: 't
  drawed_parts_of_player :: string
  drawing_points :: "DrawingPoint list"
  is_completed :: 'c
  player_drawing :: string
  player_id :: int
  d_player_image :: string
  d_player_name :: string
  player_part :: string

text \<open>
  A request body may carry members that are no path of the schema; the one that matters
  is the \<open>game_code\<close> a client sends with a drawing.
\<close>

record ('t, 'c) drawing_request = "('t, 'c) drawing_fields" +
  d_game_code :: "string option"

type_synonym Drawing = "(nat, bool) drawing_fields"
type_synonym DrawingStatus = "(nat option, bool option) drawing_request"

text \<open>
  A player as embedded in a game. A submitted \<open>player_data\<close> may lack
  \<open>player_body_images\<close>; a stored player has the list.
\<close>

record 'i player_fields =
  p_game_code :: string
  player_body_images :: 'i
  player_body_parts_with_player_names :: "string list"
  player_current_step :: "int list"
  player_image :: string
  player_name :: string
  player_number :: int

type_synonym Player = "string list player_fields"
type_synonym player_data = "string list option player_fields"

text \<open>
  Modelled from the spec: the Game schema (models/Game.js is not among the sources).
  The fields are those of the spec's data model and of the \<open>GameState\<close> schema
  documented in routes/gameRoutes.js; \<open>number_of_players\<close> is a stored number of its
  own, not derived from \<open>players\<close>.
\<close>

record Game =
  created_at :: nat
  drawing_time :: int
  game_code :: string
  games_Parts :: "string list"
  join :: bool
  number_of_players :: int
  start_game :: bool
  players :: "Player list"

record Store =
  games :: "Game list"
  drawings :: "Drawing list"

definition empty_store :: Store where
  "empty_store = \<lparr>games = [], drawings = []\<rparr>"

section \<open>Responses\<close>

text \<open>One constructor for each shape of JSON body the handlers send.\<close>

datatype body =
    Message string
  | MessageGame string Game
  | MessageDrawing string Drawing
  | IncompletePlayers "string list"
  | DrawingData "DrawingPoint list" bool
  | DrawingList "Drawing list"
  | CanJoin string bool
  | Joined string bool string int "string list" "Player list"

type_synonym response = "nat \<times> body"

section \<open>The store client\<close>

text \<open>\<open>Game.findOne({ game_code })\<close>: the first game with that code.\<close>

definition Game_findOne :: "string \<Rightarrow> Game list \<Rightarrow> Game option" where
  "Game_findOne c gs = find (\<lambda>g. game_code g = c) gs"

text \<open>
  \<open>game.save()\<close> on a document obtained by \<open>Game.findOne({ game_code })\<close>: the
  document found, the first with that code, is replaced in place.
\<close>

fun Game_save :: "string \<Rightarrow> Game \<Rightarrow> Game list \<Rightarrow> Game list" where
  "Game_save c g' [] = []"
| "Game_save c g' (g # gs) = (if game_code g = c then g' # gs else g # Game_save c g' gs)"

text \<open>
  \<open>new Drawing(drawingData)\<close>: the submitted values of the schema's paths, with the
  defaults \<open>Date.now\<close> and \<open>false\<close> where \<open>created_at\<close> and \<open>is_completed\<close> are
  absent. The schema is strict, as schemas are unless they say otherwise, so a member of
  the body that is no path of it, \<open>game_code\<close>, does not reach the document.
\<close>

definition new_Drawing :: "nat \<Rightarrow> DrawingStatus \<Rightarrow> Drawing" where
  "new_Drawing now drawingData =
     \<lparr>d_created_at = (case d_created_at drawingData of None \<Rightarrow> now | Some t \<Rightarrow> t),
      drawed_parts_of_player = drawed_parts_of_player drawingData,
      drawing_points = drawing_points drawingData,
      is_completed = (case is_completed drawingData of None \<Rightarrow> False | Some b \<Rightarrow> b),
      player_drawing = player_drawing drawingData,
      player_id = player_id drawingData,
      d_player_image = d_player_image drawingData,
      d_player_name = d_player_name drawingData,
      player_part = player_part drawingData\<rparr>"

text \<open>
  The value at \<open>game_code\<close> in a stored drawing, which a query condition
  \<open>{ game_code }\<close> on drawings compares with the code asked for: a drawing has no
  such path, whatever was submitted. The condition goes to the store as the handler
  writes it.
\<close>

definition stored_game_code :: "Drawing \<Rightarrow> string option" where
  "stored_game_code d = None"

section \<open>Handlers of routes/gameRoutes.js\<close>

text \<open>
  Each handler takes the request and the store and gives the response and the store it
  leaves. A read-only handler returns the store it was given. Requests are typed: a body
  that the schema's validation would reject (answered 400 by \<open>storeGameState\<close> and
  \<open>updateDrawingStatus\<close>, with nothing stored) is not a value of the request types,
  and the store client does not fail, so that of the \<open>catch\<close> branches only the one
  a missing \<open>player_data\<close> reaches is a branch of the model.
\<close>

definition storeGameState :: "Game \<Rightarrow> Store \<Rightarrow> response \<times> Store" where
  "storeGameState gameData st =
     ((201, MessageGame ''Game state stored successfully'' gameData),
      st\<lparr>games := games st @ [gameData]\<rparr>)"

definition updateDrawingStatus :: "nat \<Rightarrow> DrawingStatus \<Rightarrow> Store \<Rightarrow> response \<times> Store" where
  "updateDrawingStatus now drawingData st =
     (let drawing = new_Drawing now drawingData
      in ((201, MessageDrawing ''Drawing status updated successfully'' drawing),
          st\<lparr>drawings := drawings st @ [drawing]\<rparr>))"

definition incompleteUsers :: "string \<Rightarrow> string \<Rightarrow> Store \<Rightarrow> response \<times> Store" where
  "incompleteUsers gc part_name st =
     (case Game_findOne gc (games st) of
        None \<Rightarrow> ((404, Message ''Game not found''), st)
      | Some game \<Rightarrow>
          (let allPlayerNames = map player_name (players game);
               completedDrawings =
                 filter (\<lambda>d. stored_game_code d = Some gc \<and> player_part d = part_name \<and>
                             is_completed d = True)
                   (drawings st);
               completedPlayerNames = map d_player_name completedDrawings;
               incompletePlayers =
                 filter (\<lambda>name. name \<notin> set completedPlayerNames) allPlayerNames
           in ((200, IncompletePlayers incompletePlayers), st)))"

text \<open>
  The second copy of the route file (the one stored with server.js and the Drawing
  model) has the same \<open>storeGameState\<close>, \<open>updateDrawingStatus\<close>, \<open>getDrawing\<close>
  and \<open>completedDrawings\<close>, and this \<open>incompleteUsers\<close>: it queries the drawings of
  the part with \<open>is_completed: false\<close>, of any game, before it looks the game up.
\<close>

definition incompleteUsers_variant :: "string \<Rightarrow> string \<Rightarrow> Store \<Rightarrow> response \<times> Store" where
  "incompleteUsers_variant gc part_name st =
     (let incompleteDrawings =
            filter (\<lambda>d. player_part d = part_name \<and> is_completed d = False) (drawings st)
      in case Game_findOne gc (games st) of
           None \<Rightarrow> ((404, Message ''Game not found''), st)
         | Some game \<Rightarrow>
             (let allPlayerNames = map player_name (players game);
                  completedPlayerNames = map d_player_name incompleteDrawings;
                  incompletePlayerNames =
                    filter (\<lambda>name. name \<notin> set completedPlayerNames) allPlayerNames
              in ((200, IncompletePlayers incompletePlayerNames), st)))"

definition getDrawing :: "string \<Rightarrow> string \<Rightarrow> string \<Rightarrow> Store \<Rightarrow> response \<times> Store" where
  "getDrawing gc pname part_name st =
     (case find (\<lambda>d. stored_game_code d = Some gc \<and> d_player_name d = pname \<and>
                       player_part d = part_name)
             (drawings st) of
        None \<Rightarrow> ((404, Message ''Drawing not found''), st)
      | Some drawing \<Rightarrow>
          ((200, DrawingData (drawing_points drawing) (is_completed drawing)), st))"

text \<open>The route parameter \<open>game_code\<close> is read and not used in the query.\<close>

definition completedDrawings :: "string \<Rightarrow> Store \<Rightarrow> response \<times> Store" where
  "completedDrawings gc st =
     (let completedDrawings = filter (\<lambda>d. is_completed d = True) (drawings st)
      in if length completedDrawings = 0
         then ((404, Message ''No completed drawings found''), st)
         else ((200, DrawingList completedDrawings), st))"

text \<open>
  \<open>{...player_data, game_code: game_code, player_body_images:
  player_data.player_body_images || []}\<close>
\<close>

definition updatedPlayerData :: "string \<Rightarrow> player_data \<Rightarrow> Player" where
  "updatedPlayerData gc pd =
     \<lparr>p_game_code = gc,
      player_body_images = (case player_body_images pd of None \<Rightarrow> [] | Some imgs \<Rightarrow> imgs),
      player_body_parts_with_player_names = player_body_parts_with_player_names pd,
      player_current_step = player_current_step pd,
      player_image = player_image pd,
      player_name = player_name pd,
      player_number = player_number pd\<rparr>"

text \<open>
  Reading \<open>player_data.player_body_images\<close> when the body has no \<open>player_data\<close>
  throws a TypeError, which the handler's \<open>catch\<close> turns into a 500 with the
  runtime's message.
\<close>

definition type_error_message :: string where
  "type_error_message = ''Cannot read properties of undefined (reading 'player_body_images')''"

definition push_player :: "Player \<Rightarrow> Game \<Rightarrow> Game" where
  "push_player p game =
     (let pushed = game\<lparr>players := players game @ [p]\<rparr>
      in pushed\<lparr>number_of_players := int (length (players pushed))\<rparr>)"

definition updateGameWithPlayer ::
  "string \<Rightarrow> player_data option \<Rightarrow> Store \<Rightarrow> response \<times> Store" where
  "updateGameWithPlayer gc pdo st =
     (case Game_findOne gc (games st) of
        None \<Rightarrow> ((404, Message ''Game not found''), st)
      | Some game \<Rightarrow>
          (case pdo of
             None \<Rightarrow> ((500, Message type_error_message), st)
           | Some pd \<Rightarrow>
               (let game' = push_player (updatedPlayerData gc pd) game
                in ((200, MessageGame ''Game updated successfully'' game'),
                    st\<lparr>games := Game_save gc game' (games st)\<rparr>))))"

definition updateGameStatus ::
  "string \<Rightarrow> bool option \<Rightarrow> bool option \<Rightarrow> int option \<Rightarrow> Store \<Rightarrow> response \<times> Store" where
  "updateGameStatus gc start_game_opt join_opt drawing_time_opt st =
     (case Game_findOne gc (games st) of
        None \<Rightarrow> ((404, Message ''Game not found''), st)
      | Some game \<Rightarrow>
          (let g1 = (case start_game_opt of None \<Rightarrow> game | Some b \<Rightarrow> game\<lparr>start_game := b\<rparr>);
               g2 = (case join_opt of None \<Rightarrow> g1 | Some b \<Rightarrow> g1\<lparr>join := b\<rparr>);
               g3 = (case drawing_time_opt of None \<Rightarrow> g2 | Some t \<Rightarrow> g2\<lparr>drawing_time := t\<rparr>)
           in ((200, MessageGame ''Game status updated successfully'' g3),
               st\<lparr>games := Game_save gc g3 (games st)\<rparr>)))"

definition validateJoinGame ::
  "string \<Rightarrow> player_data option \<Rightarrow> Store \<Rightarrow> response \<times> Store" where
  "validateJoinGame gc pdo st =
     (case Game_findOne gc (games st) of
        None \<Rightarrow> ((404, Message ''Game not found''), st)
      | Some game \<Rightarrow>
          if start_game game then ((400, CanJoin ''Room already started'' False), st)
          else if \<not> join game then ((400, CanJoin ''Room is not accepting new players'' False), st)
          else
            (case pdo of
               None \<Rightarrow> ((500, Message type_error_message), st)
             | Some pd \<Rightarrow>
                 (let game' = push_player (updatedPlayerData gc pd) game
                  in ((200, Joined ''User joined the game successfully'' True
                              (game_code game') (number_of_players game')
                              (games_Parts game') (players game')),
                      st\<lparr>games := Game_save gc game' (games st)\<rparr>))))"

definition getGameData :: "string \<Rightarrow> Store \<Rightarrow> response \<times> Store" where
  "getGameData gc st =
     (case Game_findOne gc (games st) of
        None \<Rightarrow> ((404, Message ''Game not found''), st)
      | Some game \<Rightarrow> ((200, MessageGame ''Game data retrieved successfully'' game), st))"

section \<open>The API as a transition system\<close>

text \<open>
  One constructor for each route, with the request's parameters; the time of the request
  is a parameter of \<open>updateDrawingStatus\<close>, which reads the clock for a default.
\<close>

datatype operation =
    StoreGameState Game
  | UpdateDrawingStatus nat DrawingStatus
  | IncompleteUsers string string
  | GetDrawing string string string
  | CompletedDrawings string
  | UpdateGameWithPlayer string "player_data option"
  | UpdateGameStatus string "bool option" "bool option" "int option"
  | ValidateJoinGame string "player_data option"
  | GetGameData string

fun handle :: "operation \<Rightarrow> Store \<Rightarrow> response \<times> Store" where
  "handle (StoreGameState g) st = storeGameState g st"
| "handle (UpdateDrawingStatus now d) st = updateDrawingStatus now d st"
| "handle (IncompleteUsers gc p) st = incompleteUsers gc p st"
| "handle (GetDrawing gc n p) st = getDrawing gc n p st"
| "handle (CompletedDrawings gc) st = completedDrawings gc st"
| "handle (UpdateGameWithPlayer gc pdo) st = updateGameWithPlayer gc pdo st"
| "handle (UpdateGameStatus gc s j t) st = updateGameStatus gc s j t st"
| "handle (ValidateJoinGame gc pdo) st = validateJoinGame gc pdo st"
| "handle (GetGameData gc) st = getGameData gc st"

text \<open>The store after a sequence of requests, served one after the other.\<close>

fun run :: "operation list \<Rightarrow> Store \<Rightarrow> Store" where
  "run [] st = st"
| "run (op # ops) st = run ops (snd (handle op st))"

section \<open>Properties of a store\<close>

text \<open>
  The rosters of the started games are kept from one list of games to the next: every
  game of the first list is still there, at its place, and where it is started the game
  at its place has the same players.
\<close>

definition started_rosters_kept :: "Game list \<Rightarrow> Game list \<Rightarrow> bool" where
  "started_rosters_kept gs gs' =
     (length gs \<le> length gs' \<and>
      list_all (\<lambda>(g, g'). start_game g \<longrightarrow> players g' = players g) (zip gs gs'))"

text \<open>Every game's \<open>number_of_players\<close> is the length of its \<open>players\<close>.\<close>

definition counts_match :: "Game list \<Rightarrow> bool" where
  "counts_match gs = list_all (\<lambda>g. number_of_players g = int (length (players g))) gs"

text \<open>
  A request that creates a game does so with a \<open>number_of_players\<close> equal to the
  length of the \<open>players\<close> it submits; any other request qualifies.
\<close>

fun creates_consistently :: "operation \<Rightarrow> bool" where
  "creates_consistently (StoreGameState g) = (number_of_players g = int (length (players g)))"
| "creates_consistently _ = True"

section \<open>The README's example requests\<close>

definition test_player :: player_data where
  "test_player =
     \<lparr>p_game_code = '''', player_body_images = None,
      player_body_parts_with_player_names = [''Hat-'', ''Head-''],
      player_current_step = [0, 1], player_image = '''',
      player_name = ''test'', player_number = 82\<rparr>"

definition lobby :: "string \<Rightarrow> Game" where
  "lobby gc =
     \<lparr>created_at = 0, drawing_time = 0, game_code = gc,
      games_Parts = [''Hat'', ''Head''], join = True, number_of_players = 0,
      start_game = False, players = []\<rparr>"

definition started_lobby :: Game where
  "started_lobby = (lobby ''1000'')\<lparr>start_game := True\<rparr>"

definition started_closed_lobby :: Game where
  "started_closed_lobby = (lobby ''1000'')\<lparr>start_game := True, join := False\<rparr>"

definition miscounted_lobby :: Game where
  "miscounted_lobby = (lobby ''1000'')\<lparr>number_of_players := 3\<rparr>"

definition hat_status :: "string \<Rightarrow> bool option \<Rightarrow> DrawingStatus" where
  "hat_status gc c =
     \<lparr>d_created_at = None, drawed_parts_of_player = ''Hat'',
      drawing_points = [\<lparr>offsetDx = 157, offsetDy = 120, pointType = 0, pressure = 1\<rparr>],
      is_completed = c, player_drawing = '''', player_id = 1, d_player_image = '''',
      d_player_name = ''test'', player_part = ''Hat'', d_game_code = Some gc\<rparr>"

text \<open>The store after game 1000 was created and the player test joined it.\<close>

definition joined_store :: Store where
  "joined_store =
     run [StoreGameState (lobby ''1000''), ValidateJoinGame ''1000'' (Some test_player)]
       empty_store"

section \<open>Lemmas on the store client\<close>

lemmas handler_defs = storeGameState_def updateDrawingStatus_def incompleteUsers_def
  incompleteUsers_variant_def getDrawing_def completedDrawings_def updateGameWithPlayer_def
  updateGameStatus_def validateJoinGame_def getGameData_def

lemmas example_defs = empty_store_def lobby_def test_player_def hat_status_def
  Game_findOne_def push_player_def updatedPlayerData_def new_Drawing_def
  stored_game_code_def

lemma joined_store_eq:
  "joined_store =
     \<lparr>games = [push_player (updatedPlayerData ''1000'' test_player) (lobby ''1000'')],
      drawings = []\<rparr>"
  by (simp add: joined_store_def empty_store_def storeGameState_def validateJoinGame_def
      Game_findOne_def lobby_def push_player_def)

lemma Game_findOne_save:
  "Game_findOne c gs = Some g \<Longrightarrow> game_code g' = c \<Longrightarrow>
   Game_findOne c (Game_save c g' gs) = Some g'"
  by (induction gs) (auto simp: Game_findOne_def)

lemma Game_findOne_code: "Game_findOne c gs = Some g \<Longrightarrow> game_code g = c"
  by (induction gs) (auto simp: Game_findOne_def split: if_splits)

lemma Game_findOne_mem: "Game_findOne c gs = Some g \<Longrightarrow> g \<in> set gs"
  by (induction gs) (auto simp: Game_findOne_def split: if_splits)

lemma length_Game_save: "length (Game_save c g' gs) = length gs"
  by (induction gs) auto

text \<open>A save under one code leaves the lookup of every other code as it was.\<close>

lemma Game_save_other:
  "c' \<noteq> c \<Longrightarrow> game_code g' = c \<Longrightarrow>
   Game_findOne c' (Game_save c g' gs) = Game_findOne c' gs"
  by (induction gs) (auto simp: Game_findOne_def)

lemma push_player_count:
  "number_of_players (push_player p g) = int (length (players (push_player p g)))"
  by (simp add: push_player_def)

lemma push_player_roster: "players (push_player p g) = players g @ [p]"
  by (simp add: push_player_def)

lemma new_Drawing_default:
  "is_completed drawingData = None \<Longrightarrow> is_completed (new_Drawing now drawingData) = False"
  by (simp add: new_Drawing_def)

section \<open>The completion-tracking query\<close>

text \<open>
  In routes/gameRoutes.js the query selects the completed drawings by \<open>game_code\<close>
  too, and no stored drawing has one: it selects none, and the answer is the whole
  roster of the first game with the code, in roster order and with repetitions.
\<close>

lemma incompleteUsers_whole_roster:
  assumes "Game_findOne gc (games st) = Some game"
  shows "incompleteUsers gc part_name st =
           ((200, IncompletePlayers (map player_name (players game))), st)"
  using assms by (simp add: incompleteUsers_def stored_game_code_def Let_def)

text \<open>For the same reason \<open>getDrawing\<close> finds no drawing.\<close>

lemma getDrawing_never_finds:
  "getDrawing gc pname part_name st = ((404, Message ''Drawing not found''), st)"
proof -
  have "find (\<lambda>d::Drawing. False) ds = None" for ds
    by (induction ds) auto
  then show ?thesis by (simp add: getDrawing_def stored_game_code_def)
qed

text \<open>
  The copy of the route stored with server.js answers the roster less the names that
  have a drawing of the part, of any game, that is not completed.
\<close>

lemma incompleteUsers_variant_answer:
  assumes "Game_findOne gc (games st) = Some game"
  shows "incompleteUsers_variant gc part_name st =
     ((200, IncompletePlayers
         (filter (\<lambda>name. \<not> (\<exists>d \<in> set (drawings st).
                     player_part d = part_name \<and> \<not> is_completed d \<and> d_player_name d = name))
            (map player_name (players game)))), st)"
proof -
  have "name \<notin> d_player_name ` {d \<in> set (drawings st). player_part d = part_name \<and> \<not> is_completed d}
      \<longleftrightarrow> \<not> (\<exists>d \<in> set (drawings st).
             player_part d = part_name \<and> \<not> is_completed d \<and> d_player_name d = name)" for name
    by auto
  then show ?thesis using assms by (simp add: incompleteUsers_variant_def Let_def)
qed

lemma incompleteUsers_variant_read_only: "snd (incompleteUsers_variant gc part_name st) = st"
  by (simp add: incompleteUsers_variant_def Let_def split: option.splits)

text \<open>The answer of \<open>completedDrawings\<close> does not depend on the game code.\<close>

lemma completedDrawings_any_code: "completedDrawings gc st = completedDrawings gc' st"
  by (simp add: completedDrawings_def)

text \<open>
  C1. The completion-tracking query returns the roster names of the game less those with
  a completed drawing of that game and part. Game 1000 is created, test joins it and
  submits a completed Hat drawing with \<open>game_code\<close> 1000, so the answer for 1000 and
  Hat should be empty. The route of routes/gameRoutes.js answers [test]: the drawing is
  stored completed but the condition on \<open>game_code\<close> selects no stored drawing. The
  copy stored with server.js answers [test] too: it removes the names with a drawing
  that is not completed.
\<close>

theorem incompleteUsers_keeps_completed_player:
  "d_game_code (hat_status ''1000'' (Some True)) = Some ''1000'' \<and>
   map (\<lambda>d. (d_player_name d, player_part d, is_completed d))
     (drawings (run [UpdateDrawingStatus 5 (hat_status ''1000'' (Some True))] joined_store))
     = [(''test'', ''Hat'', True)] \<and>
   fst (incompleteUsers ''1000'' ''Hat''
          (run [UpdateDrawingStatus 5 (hat_status ''1000'' (Some True))] joined_store))
     = (200, IncompletePlayers [''test'']) \<and>
   fst (incompleteUsers_variant ''1000'' ''Hat''
          (run [UpdateDrawingStatus 5 (hat_status ''1000'' (Some True))] joined_store))
     = (200, IncompletePlayers [''test''])"
  by (simp add: joined_store_eq handler_defs example_defs Let_def)

text \<open>
  C2. A player whose only drawing of a part is not completed is listed by the query, as
  a player with no drawing of the part is. Game 1000 has the roster [test] and the only
  drawing is test's Hat with \<open>is_completed = false\<close>: the copy of the route stored with
  server.js answers the empty list for 1000 and Hat, while the one of
  routes/gameRoutes.js answers [test].
\<close>

theorem incompleteUsers_variant_drops_incomplete_player:
  "fst (incompleteUsers_variant ''1000'' ''Hat''
          (run [UpdateDrawingStatus 5 (hat_status ''1000'' (Some False))] joined_store))
     = (200, IncompletePlayers []) \<and>
   fst (incompleteUsers ''1000'' ''Hat''
          (run [UpdateDrawingStatus 5 (hat_status ''1000'' (Some False))] joined_store))
     = (200, IncompletePlayers [''test''])"
  by (simp add: joined_store_eq handler_defs example_defs Let_def)

text \<open>
  C3. \<open>completedDrawings\<close> returns the completed drawings of the given game, and 404
  when there are none. The only drawing stored is a completed one submitted for game 2000: asked
  for game 1000, the handler returns it with status 200, where the completed drawings of
  game 1000 are none.
\<close>

theorem completedDrawings_ignores_game_code:
  "d_game_code (hat_status ''2000'' (Some True)) = Some ''2000'' \<and>
   filter (\<lambda>d. stored_game_code d = Some ''1000'' \<and> is_completed d)
     (drawings (run [UpdateDrawingStatus 5 (hat_status ''2000'' (Some True))] joined_store)) = [] \<and>
   fst (completedDrawings ''1000''
          (run [UpdateDrawingStatus 5 (hat_status ''2000'' (Some True))] joined_store))
     = (200, DrawingList [new_Drawing 5 (hat_status ''2000'' (Some True))])"
  by (simp add: joined_store_eq handler_defs example_defs Let_def)

text \<open>
  C8. \<open>incompleteUsers\<close> leaves the store, games and drawings, as it found it, and a
  second call with the same arguments gives the same response.
\<close>

theorem incompleteUsers_read_only:
  "snd (incompleteUsers gc part_name st) = st \<and>
   fst (incompleteUsers gc part_name (snd (incompleteUsers gc part_name st)))
     = fst (incompleteUsers gc part_name st)"
  by (simp add: incompleteUsers_def Let_def split: option.splits)

section \<open>Joining a game\<close>

text \<open>
  C4. For an existing game that is started or closed for joining, \<open>validateJoinGame\<close>
  answers 400 with \<open>canJoin: false\<close> and leaves the whole store, hence the game
  record, unchanged.
\<close>

theorem validateJoinGame_refuses:
  assumes "Game_findOne gc (games st) = Some game" and "start_game game \<or> \<not> join game"
  shows "\<exists>msg. validateJoinGame gc pdo st = ((400, CanJoin msg False), st)"
  using assms by (auto simp: validateJoinGame_def)

theorem validateJoinGame_refuses_witness:
  "Game_findOne ''1000'' (games (run [StoreGameState started_lobby] empty_store))
     = Some started_lobby \<and>
   start_game started_lobby \<and>
   (\<exists>msg. validateJoinGame ''1000'' (Some test_player)
            (run [StoreGameState started_lobby] empty_store)
          = ((400, CanJoin msg False), run [StoreGameState started_lobby] empty_store))"
proof -
  have found: "Game_findOne ''1000'' (games (run [StoreGameState started_lobby] empty_store))
     = Some started_lobby"
    by (simp add: started_lobby_def storeGameState_def example_defs)
  have started: "start_game started_lobby"
    by (simp add: started_lobby_def)
  then have flag: "start_game started_lobby \<or> \<not> join started_lobby" ..
  from validateJoinGame_refuses [OF found flag, of "Some test_player"] found started
  show ?thesis by simp
qed

text \<open>
  C5. For an existing game that is open and not started, \<open>validateJoinGame\<close> with a
  submitted player answers 200 with \<open>canJoin: true\<close>. The player appended has the
  name, number, image, parts and steps that were submitted, the body images that were
  submitted or none, and the game's code. The game stored under the code is then the old
  one with that player at the end of its roster and \<open>number_of_players\<close> the length
  of the new roster; the other games and the drawings are as before.
\<close>

theorem validateJoinGame_joins:
  assumes "Game_findOne gc (games st) = Some game" and "\<not> start_game game" and "join game"
  shows "let joined =
           \<lparr>p_game_code = gc,
            player_body_images = (case player_body_images pd of None \<Rightarrow> [] | Some imgs \<Rightarrow> imgs),
            player_body_parts_with_player_names = player_body_parts_with_player_names pd,
            player_current_step = player_current_step pd,
            player_image = player_image pd,
            player_name = player_name pd,
            player_number = player_number pd\<rparr>;
           roster = players game @ [joined];
           game' = game\<lparr>players := roster, number_of_players := int (length roster)\<rparr>
         in fst (validateJoinGame gc (Some pd) st) =
              (200, Joined ''User joined the game successfully'' True gc
                      (int (length (players game)) + 1) (games_Parts game) roster) \<and>
            Game_findOne gc (games (snd (validateJoinGame gc (Some pd) st))) = Some game' \<and>
            players game' = players game @ [joined] \<and>
            number_of_players game' = int (length (players game')) \<and>
            snd (validateJoinGame gc (Some pd) st) =
              st\<lparr>games := Game_save gc game' (games st)\<rparr>"
proof -
  let ?g = "push_player (updatedPlayerData gc pd) game"
  have code: "game_code ?g = gc"
    using Game_findOne_code [OF assms(1)] by (simp add: push_player_def)
  have "Game_findOne gc (Game_save gc ?g (games st)) = Some ?g"
    using Game_findOne_save [OF assms(1) code] .
  then show ?thesis using assms code
    by (simp add: validateJoinGame_def push_player_def updatedPlayerData_def Let_def)
qed

theorem validateJoinGame_joins_witness:
  "Game_findOne ''1000'' (games (run [StoreGameState (lobby ''1000'')] empty_store))
     = Some (lobby ''1000'') \<and>
   \<not> start_game (lobby ''1000'') \<and> join (lobby ''1000'') \<and>
   player_name test_player = ''test'' \<and> player_number test_player = 82 \<and>
   fst (validateJoinGame ''1000'' (Some test_player)
          (run [StoreGameState (lobby ''1000'')] empty_store)) =
     (200, Joined ''User joined the game successfully'' True ''1000'' 1 [''Hat'', ''Head'']
             [\<lparr>p_game_code = ''1000'', player_body_images = [],
               player_body_parts_with_player_names = [''Hat-'', ''Head-''],
               player_current_step = [0, 1], player_image = '''',
               player_name = ''test'', player_number = 82\<rparr>]) \<and>
   games (snd (validateJoinGame ''1000'' (Some test_player)
          (run [StoreGameState (lobby ''1000'')] empty_store))) =
     [\<lparr>created_at = 0, drawing_time = 0, game_code = ''1000'',
       games_Parts = [''Hat'', ''Head''], join = True, number_of_players = 1,
       start_game = False,
       players = [\<lparr>p_game_code = ''1000'', player_body_images = [],
                   player_body_parts_with_player_names = [''Hat-'', ''Head-''],
                   player_current_step = [0, 1], player_image = '''',
                   player_name = ''test'', player_number = 82\<rparr>]\<rparr>]"
proof -
  have found: "Game_findOne ''1000'' (games (run [StoreGameState (lobby ''1000'')] empty_store))
     = Some (lobby ''1000'')"
    by (simp add: storeGameState_def example_defs)
  have flags: "\<not> start_game (lobby ''1000'')" "join (lobby ''1000'')"
    by (simp_all add: lobby_def)
  from validateJoinGame_joins [OF found flags, of test_player] found flags
  show ?thesis
    by (simp add: storeGameState_def empty_store_def lobby_def test_player_def Let_def)
qed

text \<open>
  C9. For an existing game that is both started and closed for joining,
  \<open>validateJoinGame\<close> answers 400 with the message of the started check, which comes
  first.
\<close>

theorem validateJoinGame_started_first:
  assumes "Game_findOne gc (games st) = Some game" and "start_game game" and "\<not> join game"
  shows "fst (validateJoinGame gc pdo st) = (400, CanJoin ''Room already started'' False)"
  using assms by (simp add: validateJoinGame_def)

theorem validateJoinGame_started_first_witness:
  "Game_findOne ''1000'' (games (run [StoreGameState started_closed_lobby] empty_store))
     = Some started_closed_lobby \<and>
   start_game started_closed_lobby \<and> \<not> join started_closed_lobby \<and>
   fst (validateJoinGame ''1000'' (Some test_player)
          (run [StoreGameState started_closed_lobby] empty_store))
     = (400, CanJoin ''Room already started'' False)"
proof -
  have found: "Game_findOne ''1000'' (games (run [StoreGameState started_closed_lobby] empty_store))
     = Some started_closed_lobby"
    by (simp add: started_closed_lobby_def storeGameState_def example_defs)
  have flags: "start_game started_closed_lobby" "\<not> join started_closed_lobby"
    by (simp_all add: started_closed_lobby_def)
  from validateJoinGame_started_first [OF found flags, of "Some test_player"] found flags
  show ?thesis by simp
qed

section \<open>The roster of a started game\<close>

lemma started_rosters_kept_Cons:
  "started_rosters_kept (g # gs) (g' # gs') \<longleftrightarrow>
     (start_game g \<longrightarrow> players g' = players g) \<and> started_rosters_kept gs gs'"
  by (auto simp: started_rosters_kept_def)

lemma started_rosters_kept_append: "started_rosters_kept gs (gs @ hs)"
proof (induction gs)
  case Nil
  show ?case by (simp add: started_rosters_kept_def)
next
  case (Cons g gs)
  then show ?case by (simp add: started_rosters_kept_Cons)
qed

lemma started_rosters_kept_refl: "started_rosters_kept gs gs"
  using started_rosters_kept_append [of gs "[]"] by simp

text \<open>
  Saving the game found under a code keeps the rosters of the started games when the
  game found is not started or is saved with the players it had.
\<close>

lemma started_rosters_kept_save:
  "Game_findOne c gs = Some g \<Longrightarrow> (start_game g \<Longrightarrow> players g' = players g) \<Longrightarrow>
   started_rosters_kept gs (Game_save c g' gs)"
proof (induction gs)
  case Nil
  then show ?case by (simp add: Game_findOne_def)
next
  case (Cons h hs)
  show ?case
  proof (cases "game_code h = c")
    case True
    with Cons.prems have "h = g" by (simp add: Game_findOne_def)
    with True Cons.prems(2) show ?thesis
      by (simp add: started_rosters_kept_Cons started_rosters_kept_refl)
  next
    case False
    with Cons.prems have "Game_findOne c hs = Some g" by (simp add: Game_findOne_def)
    from Cons.IH [OF this Cons.prems(2)] False show ?thesis
      by (simp add: started_rosters_kept_Cons)
  qed
qed

text \<open>
  \<open>updateGameWithPlayer\<close> looks at no flag: with a submitted player it appends to the
  roster of any game it finds.
\<close>

lemma updateGameWithPlayer_appends:
  assumes "Game_findOne gc (games st) = Some game"
  shows "Game_findOne gc (games (snd (updateGameWithPlayer gc (Some pd) st))) =
           Some (push_player (updatedPlayerData gc pd) game)"
proof -
  have "game_code (push_player (updatedPlayerData gc pd) game) = gc"
    using Game_findOne_code [OF assms] by (simp add: push_player_def)
  from Game_findOne_save [OF assms this] assms show ?thesis
    by (simp add: updateGameWithPlayer_def Let_def)
qed

text \<open>
  C6, as amended. Every operation other than \<open>updateGameWithPlayer\<close> leaves the roster
  of every started game unchanged: \<open>validateJoinGame\<close> refuses a started game,
  \<open>updateGameStatus\<close> writes flags and the drawing time only, \<open>storeGameState\<close>
  adds a record, and the others do not write games.
\<close>

theorem started_roster_kept_by_guarded_operations:
  assumes "\<And>gc pdo. op \<noteq> UpdateGameWithPlayer gc pdo"
  shows "started_rosters_kept (games st) (games (snd (handle op st)))"
proof (cases op)
  case (StoreGameState g)
  then show ?thesis by (simp add: storeGameState_def started_rosters_kept_append)
next
  case (UpdateDrawingStatus now d)
  then show ?thesis by (simp add: updateDrawingStatus_def Let_def started_rosters_kept_refl)
next
  case (IncompleteUsers gc p)
  then show ?thesis
    by (simp add: incompleteUsers_def Let_def started_rosters_kept_refl split: option.splits)
next
  case (GetDrawing gc n p)
  then show ?thesis
    by (simp add: getDrawing_def started_rosters_kept_refl split: option.splits)
next
  case (CompletedDrawings gc)
  then show ?thesis by (simp add: completedDrawings_def Let_def started_rosters_kept_refl)
next
  case (UpdateGameWithPlayer gc pdo)
  with assms [of gc pdo] show ?thesis by simp
next
  case (UpdateGameStatus gc s j t)
  show ?thesis
  proof (cases "Game_findOne gc (games st)")
    case None
    with UpdateGameStatus show ?thesis
      by (simp add: updateGameStatus_def started_rosters_kept_refl)
  next
    case (Some game)
    have "started_rosters_kept (games st) (Game_save gc g' (games st))"
      if "players g' = players game" for g'
      using started_rosters_kept_save [OF Some] that by simp
    with UpdateGameStatus Some show ?thesis
      by (simp add: updateGameStatus_def Let_def split: option.splits)
  qed
next
  case (ValidateJoinGame gc pdo)
  show ?thesis
  proof (cases "Game_findOne gc (games st)")
    case None
    with ValidateJoinGame show ?thesis
      by (simp add: validateJoinGame_def started_rosters_kept_refl)
  next
    case (Some game)
    have "started_rosters_kept (games st) (Game_save gc g' (games st))"
      if "\<not> start_game game" for g'
      using started_rosters_kept_save [OF Some] that by simp
    with ValidateJoinGame Some show ?thesis
      by (simp add: validateJoinGame_def Let_def started_rosters_kept_refl split: option.splits)
  qed
next
  case (GetGameData gc)
  then show ?thesis
    by (simp add: getGameData_def started_rosters_kept_refl split: option.splits)
qed

theorem started_roster_kept_by_guarded_operations_witness:
  "(\<forall>gc pdo. ValidateJoinGame ''1000'' (Some test_player) \<noteq> UpdateGameWithPlayer gc pdo) \<and>
   games (run [StoreGameState started_lobby] empty_store) = [started_lobby] \<and>
   start_game started_lobby \<and>
   started_rosters_kept (games (run [StoreGameState started_lobby] empty_store))
     (games (snd (handle (ValidateJoinGame ''1000'' (Some test_player))
        (run [StoreGameState started_lobby] empty_store))))"
  using started_roster_kept_by_guarded_operations
    [of "ValidateJoinGame ''1000'' (Some test_player)"
        "run [StoreGameState started_lobby] empty_store"]
  by (simp add: started_lobby_def storeGameState_def empty_store_def)

text \<open>
  C6, as stated, fails: game 1000 is stored started with an empty roster, and
  \<open>updateGameWithPlayer\<close> appends the player test to it.
\<close>

theorem updateGameWithPlayer_started_counterexample:
  "games (run [StoreGameState started_lobby] empty_store) = [started_lobby] \<and>
   start_game started_lobby \<and> players started_lobby = [] \<and>
   map players (games (snd (handle (UpdateGameWithPlayer ''1000'' (Some test_player))
        (run [StoreGameState started_lobby] empty_store))))
     = [[updatedPlayerData ''1000'' test_player]] \<and>
   \<not> started_rosters_kept (games (run [StoreGameState started_lobby] empty_store))
     (games (snd (handle (UpdateGameWithPlayer ''1000'' (Some test_player))
        (run [StoreGameState started_lobby] empty_store))))"
  by (simp add: started_lobby_def started_rosters_kept_def storeGameState_def
      updateGameWithPlayer_def empty_store_def lobby_def Game_findOne_def push_player_def
      updatedPlayerData_def test_player_def Let_def)

section \<open>The stored number of players\<close>

lemma counts_match_save:
  "counts_match gs \<Longrightarrow> number_of_players g' = int (length (players g')) \<Longrightarrow>
   counts_match (Game_save c g' gs)"
  by (induction gs) (auto simp: counts_match_def)

lemma counts_match_found:
  "counts_match gs \<Longrightarrow> Game_findOne c gs = Some g \<Longrightarrow>
   number_of_players g = int (length (players g))"
  using Game_findOne_mem [of c gs g] by (auto simp: counts_match_def list_all_iff)

text \<open>One request keeps the equality, when it does not create a game that breaks it.\<close>

lemma handle_counts_match:
  assumes "creates_consistently op" and "counts_match (games st)"
  shows "counts_match (games (snd (handle op st)))"
proof (cases op)
  case (StoreGameState g)
  with assms show ?thesis by (simp add: storeGameState_def counts_match_def)
next
  case (UpdateDrawingStatus now d)
  with assms show ?thesis by (simp add: updateDrawingStatus_def Let_def)
next
  case (IncompleteUsers gc p)
  with assms show ?thesis by (simp add: incompleteUsers_def Let_def split: option.splits)
next
  case (GetDrawing gc n p)
  with assms show ?thesis by (simp add: getDrawing_def split: option.splits)
next
  case (CompletedDrawings gc)
  with assms show ?thesis by (simp add: completedDrawings_def Let_def)
next
  case (UpdateGameWithPlayer gc pdo)
  with assms(2) show ?thesis
    by (simp add: updateGameWithPlayer_def Let_def counts_match_save push_player_count
        split: option.splits)
next
  case (UpdateGameStatus gc s j t)
  show ?thesis
  proof (cases "Game_findOne gc (games st)")
    case None
    with UpdateGameStatus assms(2) show ?thesis by (simp add: updateGameStatus_def)
  next
    case (Some game)
    have "counts_match (Game_save gc g' (games st))"
      if "players g' = players game" "number_of_players g' = number_of_players game" for g'
      using counts_match_save [OF assms(2)] counts_match_found [OF assms(2) Some] that by simp
    with UpdateGameStatus Some show ?thesis
      by (simp add: updateGameStatus_def Let_def split: option.splits)
  qed
next
  case (ValidateJoinGame gc pdo)
  with assms(2) show ?thesis
    by (simp add: validateJoinGame_def Let_def counts_match_save push_player_count
        split: option.splits)
next
  case (GetGameData gc)
  with assms show ?thesis by (simp add: getGameData_def split: option.splits)
qed

text \<open>
  C7, as amended. \<open>number_of_players\<close> equals the length of \<open>players\<close> in every game
  of a store reached by requests whose \<open>storeGameState\<close> bodies have the two equal,
  from a store where the equality holds (the empty one, for instance):
  \<open>updateGameWithPlayer\<close> and \<open>validateJoinGame\<close> set the number to the length of the
  new roster (\<open>push_player_count\<close>), the other operations write neither field, and
  \<open>storeGameState\<close> stores the number it is given.
\<close>

theorem number_of_players_tracks_roster:
  assumes "list_all creates_consistently ops" and "counts_match (games st)"
  shows "counts_match (games (run ops st))"
  using assms
proof (induction ops arbitrary: st)
  case Nil
  then show ?case by simp
next
  case (Cons op ops)
  then show ?case by (simp add: handle_counts_match)
qed

theorem number_of_players_tracks_roster_witness:
  "list_all creates_consistently
     [StoreGameState (lobby ''1000''), ValidateJoinGame ''1000'' (Some test_player)] \<and>
   counts_match (games empty_store) \<and>
   counts_match (games (run [StoreGameState (lobby ''1000''),
     ValidateJoinGame ''1000'' (Some test_player)] empty_store))"
  using number_of_players_tracks_roster
    [of "[StoreGameState (lobby ''1000''), ValidateJoinGame ''1000'' (Some test_player)]"
        empty_store]
  by (simp add: lobby_def empty_store_def counts_match_def)

text \<open>
  C7, as stated, fails: \<open>storeGameState\<close> stores a game submitted with
  \<open>number_of_players = 3\<close> and no player as it is.
\<close>

theorem storeGameState_count_counterexample:
  "games (run [StoreGameState miscounted_lobby] empty_store) = [miscounted_lobby] \<and>
   number_of_players miscounted_lobby = 3 \<and> length (players miscounted_lobby) = 0 \<and>
   \<not> counts_match (games (run [StoreGameState miscounted_lobby] empty_store))"
  by (simp add: miscounted_lobby_def counts_match_def storeGameState_def empty_store_def
      lobby_def)

section \<open>The default of \<open>is_completed\<close>\<close>

text \<open>
  C10. A drawing submitted without \<open>is_completed\<close> is stored with
  \<open>is_completed = false\<close>, so its player is still listed by \<open>incompleteUsers\<close> for
  the part and \<open>getDrawing\<close> reports \<open>is_completed = false\<close> for it. Game 1000 is
  created, test joins it and submits a Hat drawing with \<open>game_code\<close> 1000 and no
  \<open>is_completed\<close>. The drawing is stored with \<open>is_completed = false\<close>, and the route
  of routes/gameRoutes.js lists test; but \<open>getDrawing\<close> for 1000, test and Hat answers
  404, its condition on \<open>game_code\<close> selecting no stored drawing, and the copy of
  \<open>incompleteUsers\<close> stored with server.js no longer lists test.
\<close>

theorem default_drawing_not_reported:
  "is_completed (hat_status ''1000'' None) = None \<and>
   d_game_code (hat_status ''1000'' None) = Some ''1000'' \<and>
   map (\<lambda>d. (d_player_name d, player_part d, is_completed d))
     (drawings (run [UpdateDrawingStatus 5 (hat_status ''1000'' None)] joined_store))
     = [(''test'', ''Hat'', False)] \<and>
   fst (incompleteUsers ''1000'' ''Hat''
          (run [UpdateDrawingStatus 5 (hat_status ''1000'' None)] joined_store))
     = (200, IncompletePlayers [''test'']) \<and>
   fst (getDrawing ''1000'' ''test'' ''Hat''
          (run [UpdateDrawingStatus 5 (hat_status ''1000'' None)] joined_store))
     = (404, Message ''Drawing not found'') \<and>
   fst (incompleteUsers_variant ''1000'' ''Hat'' joined_store)
     = (200, IncompletePlayers [''test'']) \<and>
   fst (incompleteUsers_variant ''1000'' ''Hat''
          (run [UpdateDrawingStatus 5 (hat_status ''1000'' None)] joined_store))
     = (200, IncompletePlayers [])"
  by (simp add: joined_store_eq handler_defs example_defs Let_def)

end
